theory Spec2Isabelle
  imports Complex_Main "HOL-Library.AList"
begin

section \<open>Values, annotation metadata and schemas\<close>

text \<open>
  Go's \<^verbatim>\<open>float64\<close> values are only copied from the annotations into the schema and, for
  length and count bounds, converted with \<^verbatim>\<open>int(x)\<close>; they are modelled by rationals.
  A Go \<^verbatim>\<open>any\<close> holding parsed annotation data is a JSON-like value, \<open>AnyNil\<close> being the
  nil interface.
\<close>

type_synonym float64 = rat

datatype any_value =
    AnyNil
  | AnyBool bool
  | AnyNumber float64
  | AnyString string
  | AnyList "any_value list"
  | AnyObject "(string \<times> any_value) list"

text \<open>
  \<^verbatim>\<open>schema.SchemaMetadata\<close> belongs to the external package \<^verbatim>\<open>github.com/talav/schema\<close>;
  only the two fields read by the schema builder are kept.
\<close>

record SchemaMetadata =
  ParamName :: string
  Required :: bool

text \<open>\<^verbatim>\<open>metadata.OpenAPIMetadata\<close> (metadata/parse_openapi.go).\<close>

record OpenAPIMetadata =
  ReadOnly :: "bool option"
  WriteOnly :: "bool option"
  Deprecated :: "bool option"
  Hidden :: "bool option"
  Title :: string
  Description :: string
  Format :: string
  Examples :: "any_value list"
  Extensions :: "(string \<times> any_value) list"

text \<open>\<^verbatim>\<open>metadata.ValidateMetadata\<close> (metadata/parser_validate.go).\<close>

record ValidateMetadata =
  Minimum :: "float64 option"
  ExclusiveMinimum :: "float64 option"
  Maximum :: "float64 option"
  ExclusiveMaximum :: "float64 option"
  MultipleOf :: "float64 option"
  Pattern :: string
  Format :: string
  Enum :: "any_value list"
  Required :: "bool option"

text \<open>
  Modelled from the spec: \<^verbatim>\<open>metadata.DefaultMetadata\<close>, whose declaration is not among the
  sources; the builder reads its \<^verbatim>\<open>Value\<close> only ("default-value metadata, copied verbatim
  onto the schema's default field").
\<close>

record DefaultMetadata =
  Value :: any_value

text \<open>\<^verbatim>\<open>metadata.DependentRequiredMetadata\<close> (metadata/parse_dependent.go).\<close>

record DependentRequiredMetadata =
  Dependents :: "string list"

text \<open>\<^verbatim>\<open>metadata.OpenAPIStructMetadata\<close> (metadata/parse_openapi_struct.go).\<close>

record OpenAPIStructMetadata =
  AdditionalProperties :: "bool option"
  Nullable :: "bool option"

text \<open>
  \<^verbatim>\<open>schema.FieldMetadata\<close> and \<^verbatim>\<open>schema.StructMetadata\<close> are produced by the external
  metadata package. \<^verbatim>\<open>schema.GetTagMetadata[T](&fieldMeta, key)\<close> returns the record parsed
  for the annotation namespace \<open>key\<close> and whether there is one: one optional field per
  namespace registered in \<^verbatim>\<open>NewMetadata\<close> (metadata.go).
\<close>

record FieldMetadata =
  StructFieldName :: string
  Index :: nat
  tag_schema :: "SchemaMetadata option"
  tag_openapi :: "OpenAPIMetadata option"
  tag_validate :: "ValidateMetadata option"
  tag_default :: "DefaultMetadata option"
  tag_dependentRequired :: "DependentRequiredMetadata option"
  tag_openapiStruct :: "OpenAPIStructMetadata option"

record StructMetadata =
  Fields :: "FieldMetadata list"

text \<open>
  Modelled from the spec: the \<^verbatim>\<open>Schema\<close> struct, whose declaration is not among the sources
  ("kind discriminator, nullability flag, format hint, numeric bounds, string constraints,
  array constraints, object constraints, enumeration/const value, documentation fields, an
  internal hidden flag"), with the fields that the code under src/ reads and writes and
  their Go zero values. The fields that hold no \<^verbatim>\<open>*Schema\<close> form the record
  \<open>SchemaScalars\<close>; \<^verbatim>\<open>Items\<close>, \<^verbatim>\<open>Properties\<close> and \<^verbatim>\<open>AdditionalProperties\<close> are the
  recursive positions of the datatype. A Go map inside a schema is an association list
  with one entry per key. \<^verbatim>\<open>AdditionalProperties\<close> is an \<^verbatim>\<open>any\<close> that holds nothing, a
  \<^verbatim>\<open>bool\<close>, or a \<^verbatim>\<open>*Schema\<close> (possibly nil).
\<close>

record SchemaScalars =
  Type :: string
  Nullable :: "bool option"
  Format :: string
  Minimum :: "float64 option"
  Maximum :: "float64 option"
  ExclusiveMinimum :: "float64 option"
  ExclusiveMaximum :: "float64 option"
  MultipleOf :: "float64 option"
  MinLength :: "int option"
  MaxLength :: "int option"
  Pattern :: string
  ContentEncoding :: string
  ContentMediaType :: string
  MinItems :: "int option"
  MaxItems :: "int option"
  propertyNames :: "string list"
  Required :: "string list"
  requiredMap :: "(string \<times> bool) list"
  MinProperties :: "int option"
  MaxProperties :: "int option"
  DependentRequired :: "(string \<times> string list) list"
  Enum :: "any_value list"
  Const :: any_value
  Title :: string
  Description :: string
  Examples :: "any_value list"
  Default :: any_value
  ReadOnly :: "bool option"
  WriteOnly :: "bool option"
  Deprecated :: "bool option"
  hidden :: bool
  Extensions :: "(string \<times> any_value) list"
  Ref :: string

datatype Schema =
  Schema (scalars: SchemaScalars) (Items: "Schema option")
    (Properties: "(string \<times> Schema) list")
    (AdditionalProperties: "(bool + Schema option) option")

definition zeroScalars :: SchemaScalars where
  "zeroScalars = \<lparr>Type = [], Nullable = None, Format = [], Minimum = None, Maximum = None,
     ExclusiveMinimum = None, ExclusiveMaximum = None, MultipleOf = None, MinLength = None,
     MaxLength = None, Pattern = [], ContentEncoding = [], ContentMediaType = [],
     MinItems = None, MaxItems = None, propertyNames = [], Required = [], requiredMap = [],
     MinProperties = None, MaxProperties = None, DependentRequired = [], Enum = [],
     Const = AnyNil, Title = [], Description = [], Examples = [], Default = AnyNil,
     ReadOnly = None, WriteOnly = None, Deprecated = None, hidden = False, Extensions = [],
     Ref = []\<rparr>"

text \<open>The Go literal \<^verbatim>\<open>Schema{}\<close>.\<close>

definition zeroSchema :: Schema where
  "zeroSchema = Schema zeroScalars None [] None"

text \<open>An assignment \<^verbatim>\<open>s.F = v\<close> to fields of the record part.\<close>

definition assign :: "(SchemaScalars \<Rightarrow> SchemaScalars) \<Rightarrow> Schema \<Rightarrow> Schema" where
  "assign f s = Schema (f (scalars s)) (Items s) (Properties s) (Schema.AdditionalProperties s)"

text \<open>
  Modelled from the spec: the \<^verbatim>\<open>Type*\<close> constants and \<^verbatim>\<open>formatBinary\<close> are declared outside
  src/; their values are the ones of the spec's scenarios and of the expected JSON of the
  registry tests.
\<close>

definition TypeBoolean :: string where "TypeBoolean = ''boolean''"
definition TypeInteger :: string where "TypeInteger = ''integer''"
definition TypeNumber :: string where "TypeNumber = ''number''"
definition TypeString :: string where "TypeString = ''string''"
definition TypeArray :: string where "TypeArray = ''array''"
definition TypeObject :: string where "TypeObject = ''object''"
definition formatBinary :: string where "formatBinary = ''binary''"

definition formatInt32 :: string where "formatInt32 = ''int32''"
definition formatInt64 :: string where "formatInt64 = ''int64''"
definition contentEncodingBase64 :: string where "contentEncodingBase64 = ''base64''"

section \<open>Field metadata merge (openapi_schema.go)\<close>

text \<open>
  \<^verbatim>\<open>extractFieldName\<close>: the output name is the naming metadata's \<^verbatim>\<open>ParamName\<close>, else the
  declared field name.
\<close>

definition extractFieldName :: "FieldMetadata \<Rightarrow> string" where
  "extractFieldName fieldMeta =
     (case tag_schema fieldMeta of
        Some schemaMeta \<Rightarrow> ParamName schemaMeta
      | None \<Rightarrow> StructFieldName fieldMeta)"

text \<open>\<^verbatim>\<open>determineRequired\<close>, with its three checks in the order of the source.\<close>

definition determineRequired :: "FieldMetadata \<Rightarrow> bool" where
  "determineRequired fieldMeta =
     (if (case tag_openapi fieldMeta of
            Some openAPIMeta \<Rightarrow> OpenAPIMetadata.Hidden openAPIMeta = Some True
          | None \<Rightarrow> False)
      then False
      else if (case tag_schema fieldMeta of
                 Some schemaMeta \<Rightarrow> SchemaMetadata.Required schemaMeta
               | None \<Rightarrow> False)
      then True
      else if (case tag_validate fieldMeta of
                 Some validateMeta \<Rightarrow> ValidateMetadata.Required validateMeta = Some True
               | None \<Rightarrow> False)
      then True
      else False)"

text \<open>\<^verbatim>\<open>applyOpenAPIMetadata\<close>.\<close>

definition applyOpenAPIMetadata :: "Schema \<Rightarrow> FieldMetadata \<Rightarrow> Schema" where
  "applyOpenAPIMetadata fs fieldMeta =
     (case tag_openapi fieldMeta of
        None \<Rightarrow> fs
      | Some openAPIMeta \<Rightarrow>
          assign (\<lambda>a. a\<lparr>Title := OpenAPIMetadata.Title openAPIMeta,
                          Description := OpenAPIMetadata.Description openAPIMeta,
                          Format := OpenAPIMetadata.Format openAPIMeta,
                          Examples := OpenAPIMetadata.Examples openAPIMeta,
                          ReadOnly := OpenAPIMetadata.ReadOnly openAPIMeta,
                          WriteOnly := OpenAPIMetadata.WriteOnly openAPIMeta,
                          Deprecated := OpenAPIMetadata.Deprecated openAPIMeta,
                          hidden := (case OpenAPIMetadata.Hidden openAPIMeta of
                                       Some h \<Rightarrow> h | None \<Rightarrow> hidden a),
                          Extensions := OpenAPIMetadata.Extensions openAPIMeta\<rparr>) fs)"

text \<open>
  The conversion \<^verbatim>\<open>int(x)\<close> of a \<^verbatim>\<open>float64\<close> truncates towards zero (a value outside the
  range of \<^verbatim>\<open>int\<close> is implementation-defined in Go and is outside this model).
\<close>

definition go_int :: "float64 \<Rightarrow> int" where
  "go_int x = (if x < 0 then - \<lfloor>- x\<rfloor> else \<lfloor>x\<rfloor>)"

definition applyStringMinMax :: "Schema \<Rightarrow> ValidateMetadata \<Rightarrow> Schema" where
  "applyStringMinMax fs validateMeta =
     (let fs1 = (case ValidateMetadata.Minimum validateMeta of
                   Some m \<Rightarrow> assign (\<lambda>a. a\<lparr>MinLength := Some (go_int m)\<rparr>) fs
                 | None \<Rightarrow> fs)
      in case ValidateMetadata.Maximum validateMeta of
           Some m \<Rightarrow> assign (\<lambda>a. a\<lparr>MaxLength := Some (go_int m)\<rparr>) fs1
         | None \<Rightarrow> fs1)"

definition applyNumericMinMax :: "Schema \<Rightarrow> ValidateMetadata \<Rightarrow> Schema" where
  "applyNumericMinMax fs validateMeta =
     assign (\<lambda>a. a\<lparr>Minimum := ValidateMetadata.Minimum validateMeta,
                     Maximum := ValidateMetadata.Maximum validateMeta\<rparr>) fs"

definition applyArrayMinMax :: "Schema \<Rightarrow> ValidateMetadata \<Rightarrow> Schema" where
  "applyArrayMinMax fs validateMeta =
     (let fs1 = (case ValidateMetadata.Minimum validateMeta of
                   Some m \<Rightarrow> assign (\<lambda>a. a\<lparr>MinItems := Some (go_int m)\<rparr>) fs
                 | None \<Rightarrow> fs)
      in case ValidateMetadata.Maximum validateMeta of
           Some m \<Rightarrow> assign (\<lambda>a. a\<lparr>MaxItems := Some (go_int m)\<rparr>) fs1
         | None \<Rightarrow> fs1)"

definition applyObjectMinMax :: "Schema \<Rightarrow> ValidateMetadata \<Rightarrow> Schema" where
  "applyObjectMinMax fs validateMeta =
     (let fs1 = (case ValidateMetadata.Minimum validateMeta of
                   Some m \<Rightarrow> assign (\<lambda>a. a\<lparr>MinProperties := Some (go_int m)\<rparr>) fs
                 | None \<Rightarrow> fs)
      in case ValidateMetadata.Maximum validateMeta of
           Some m \<Rightarrow> assign (\<lambda>a. a\<lparr>MaxProperties := Some (go_int m)\<rparr>) fs1
         | None \<Rightarrow> fs1)"

text \<open>\<^verbatim>\<open>applyMinMaxConstraints\<close>: the switch on the schema's type.\<close>

definition applyMinMaxConstraints :: "Schema \<Rightarrow> ValidateMetadata \<Rightarrow> Schema" where
  "applyMinMaxConstraints fs validateMeta =
     (if Type (scalars fs) = TypeString then applyStringMinMax fs validateMeta
      else if Type (scalars fs) = TypeInteger \<or> Type (scalars fs) = TypeNumber
        then applyNumericMinMax fs validateMeta
      else if Type (scalars fs) = TypeArray then applyArrayMinMax fs validateMeta
      else if Type (scalars fs) = TypeObject then applyObjectMinMax fs validateMeta
      else fs)"

text \<open>
  \<^verbatim>\<open>applyEnumConstraints\<close>: the target is the items schema of an array that has one, else
  the field schema; one value sets \<^verbatim>\<open>Const\<close>, any other count assigns \<^verbatim>\<open>Enum\<close>.
  \<open>enumOrConst\<close> is the assignment to \<^verbatim>\<open>target\<close>.
\<close>

definition enumOrConst :: "ValidateMetadata \<Rightarrow> Schema \<Rightarrow> Schema" where
  "enumOrConst validateMeta target =
     (if length (ValidateMetadata.Enum validateMeta) = 1
      then assign (\<lambda>a. a\<lparr>Const := ValidateMetadata.Enum validateMeta ! 0\<rparr>) target
      else assign (\<lambda>a. a\<lparr>Enum := ValidateMetadata.Enum validateMeta\<rparr>) target)"

definition applyEnumConstraints :: "Schema \<Rightarrow> ValidateMetadata \<Rightarrow> Schema" where
  "applyEnumConstraints fs validateMeta =
     (case Items fs of
        Some items \<Rightarrow>
          if Type (scalars fs) = TypeArray
          then Schema (scalars fs) (Some (enumOrConst validateMeta items)) (Properties fs)
                 (Schema.AdditionalProperties fs)
          else enumOrConst validateMeta fs
      | None \<Rightarrow> enumOrConst validateMeta fs)"

text \<open>\<^verbatim>\<open>applyValidateMetadata\<close>.\<close>

definition applyValidateMetadata :: "Schema \<Rightarrow> FieldMetadata \<Rightarrow> Schema" where
  "applyValidateMetadata fs fieldMeta =
     (case tag_validate fieldMeta of
        None \<Rightarrow> fs
      | Some validateMeta \<Rightarrow>
          (let fs1 = applyMinMaxConstraints fs validateMeta;
               fs2 = assign (\<lambda>a. a\<lparr>ExclusiveMinimum := ValidateMetadata.ExclusiveMinimum validateMeta,
                                     ExclusiveMaximum := ValidateMetadata.ExclusiveMaximum validateMeta,
                                     MultipleOf := ValidateMetadata.MultipleOf validateMeta,
                                     Pattern := ValidateMetadata.Pattern validateMeta\<rparr>) fs1;
               fs3 = (if Format (scalars fs2) = []
                      then assign (\<lambda>a. a\<lparr>Format := ValidateMetadata.Format validateMeta\<rparr>) fs2
                      else fs2)
           in applyEnumConstraints fs3 validateMeta))"

text \<open>\<^verbatim>\<open>applyDefaultValue\<close>.\<close>

definition applyDefaultValue :: "Schema \<Rightarrow> FieldMetadata \<Rightarrow> Schema" where
  "applyDefaultValue fs fieldMeta =
     (case tag_default fieldMeta of
        None \<Rightarrow> fs
      | Some defaultMeta \<Rightarrow>
          if Value defaultMeta = AnyNil then fs
          else assign (\<lambda>a. a\<lparr>Default := Value defaultMeta\<rparr>) fs)"

text \<open>
  \<^verbatim>\<open>applyDependentRequired\<close>: the entry is written on the object schema \<open>s\<close>, under the
  field's output name.
\<close>

definition applyDependentRequired :: "Schema \<Rightarrow> FieldMetadata \<Rightarrow> string \<Rightarrow> Schema" where
  "applyDependentRequired s fieldMeta fieldName =
     (case tag_dependentRequired fieldMeta of
        None \<Rightarrow> s
      | Some depMeta \<Rightarrow>
          if length (Dependents depMeta) = 0 then s
          else assign (\<lambda>a. a\<lparr>DependentRequired :=
                 AList.update fieldName (Dependents depMeta) (DependentRequired a)\<rparr>) s)"

section \<open>Types (reflect.Type) and the registry state\<close>

text \<open>
  A \<^verbatim>\<open>reflect.Type\<close> is an identity \<open>tid\<close>; its descriptor gives what the code asks of it:
  \<^verbatim>\<open>Kind()\<close>, \<^verbatim>\<open>Name()\<close>, \<^verbatim>\<open>Elem()\<close>, \<^verbatim>\<open>Len()\<close>, the types of its fields
  (\<^verbatim>\<open>t.Field(i).Type\<close>), whether it is one of the well-known types of the exact-type
  table, and which of the three capabilities it implements. Since types refer to each
  other by identity, a type graph may be cyclic. A capability is user code: the model
  takes the schema a \<^verbatim>\<open>SchemaProvider\<close> returns and the function a \<^verbatim>\<open>SchemaTransformer\<close>
  computes, and assumes that neither touches the registry it is handed.
\<close>

type_synonym tid = nat

text \<open>\<^verbatim>\<open>reflect.Kind\<close>; \<open>IntK\<close> is \<^verbatim>\<open>reflect.Int\<close>.\<close>

datatype Kind =
    Invalid | Bool | IntK | Int8 | Int16 | Int32 | Int64
  | Uint | Uint8 | Uint16 | Uint32 | Uint64 | Uintptr
  | Float32 | Float64 | Complex64 | Complex128
  | Array | Chan | Func | Interface | Map | Pointer | Slice | String | Struct
  | UnsafePointer

text \<open>
  Modelled from the spec: the variables \<^verbatim>\<open>timeType\<close>, \<^verbatim>\<open>urlType\<close>, \<^verbatim>\<open>ipType\<close> and
  \<^verbatim>\<open>ipAddrType\<close> are declared outside src/ ("an exact-type table for well-known
  non-primitive types (date/time, URL, IP address)").
\<close>

datatype WellKnown = timeType | urlType | ipType | ipAddrType

record rtype =
  Kind :: Kind
  Name :: string
  Elem :: tid
  Len :: int
  FieldTypes :: "tid list"
  wellKnown :: "WellKnown option"
  schemaProvider :: "Schema option option"
  textUnmarshaler :: bool
  schemaTransformer :: "(Schema option \<Rightarrow> Schema option) option"

text \<open>
  The types of the program, the platform's \<^verbatim>\<open>bits.UintSize\<close>, and the package variable
  \<^verbatim>\<open>DefaultArrayNullable\<close> (declared outside src/, taken as a parameter).
\<close>

record world =
  typeOf :: "tid \<Rightarrow> rtype"
  UintSize :: nat
  DefaultArrayNullable :: bool

text \<open>
  \<^verbatim>\<open>mapRegistry\<close> (openapi_registry.go). \<^verbatim>\<open>schemas\<close> maps a name to a \<^verbatim>\<open>*Schema\<close>, which may
  be nil; \<^verbatim>\<open>seen\<close> and \<^verbatim>\<open>inlineOnly\<close> are maps to \<^verbatim>\<open>bool\<close> in which only \<^verbatim>\<open>true\<close> is ever
  stored, hence sets; \<^verbatim>\<open>metadata\<close> is the \<^verbatim>\<open>GetStructMetadata\<close> of the external metadata
  cache, an error message or the fields of the struct type. The builder has no state of
  its own: it holds the registry and the metadata cache.
\<close>

record mapRegistry =
  prefix :: string
  schemas :: "string \<rightharpoonup> Schema option"
  types :: "string \<rightharpoonup> tid"
  seen :: "tid set"
  inlineOnly :: "string set"
  namer :: "tid \<Rightarrow> string \<Rightarrow> string"
  aliases :: "tid \<rightharpoonup> tid"
  metadata :: "tid \<Rightarrow> string + StructMetadata"

text \<open>
  Errors returned by the builder, panics, and the outcome of a call: \<open>NoResult\<close> is a
  call that does not return (a loop that runs forever, or calls nested deeper than the
  bound given to \<open>mapRegistry_Schema\<close> below).
\<close>

datatype error =
    StructMetadataFailed tid string
  | DependentRequiredFailed "string list"

datatype panic =
    DuplicateName string tid "tid option"
  | GenerateFailed tid error
  | FieldIndexOutOfRange tid nat
  | NilPointerDereference

datatype 'a outcome = NoResult | Panic panic | Return 'a

type_synonym registry_call =
  "mapRegistry \<Rightarrow> tid \<Rightarrow> bool \<Rightarrow> string \<Rightarrow> (Schema option \<times> mapRegistry) outcome"

type_synonym build_result = "((error + Schema option) \<times> mapRegistry) outcome"

text \<open>
  \<^verbatim>\<open>deref\<close>: \<^verbatim>\<open>for t.Kind() == reflect.Ptr { t = t.Elem() }\<close>. On a pointer type that is
  its own element (\<^verbatim>\<open>type P *P\<close>) the loop does not end: the result is \<open>None\<close>.
\<close>

partial_function (option) deref :: "world \<Rightarrow> tid \<Rightarrow> tid option" where
  "deref env t =
     (if Kind (typeOf env t) = Pointer then deref env (Elem (typeOf env t)) else Some t)"

declare deref.simps [code]

section \<open>The schema builder (openapi_schema.go)\<close>

text \<open>
  \<^verbatim>\<open>schemaFromInterface\<close>: a \<^verbatim>\<open>SchemaProvider\<close> is asked first (its result may be nil), then
  a \<^verbatim>\<open>TextUnmarshaler\<close> is a string. The source's error return guards a type assertion
  that cannot fail after \<^verbatim>\<open>Implements\<close> has succeeded.
\<close>

definition schemaFromInterface :: "world \<Rightarrow> tid \<Rightarrow> bool \<Rightarrow> Schema option" where
  "schemaFromInterface env t isPointer =
     (case schemaProvider (typeOf env t) of
        Some provided \<Rightarrow> provided
      | None \<Rightarrow>
          if textUnmarshaler (typeOf env t)
          then Some (assign (\<lambda>a. a\<lparr>Type := TypeString, Nullable := Some isPointer\<rparr>) zeroSchema)
          else None)"

definition applyNullableForScalar :: "Schema \<Rightarrow> bool \<Rightarrow> Schema" where
  "applyNullableForScalar s isPointer =
     (if Type (scalars s) = TypeBoolean \<or> Type (scalars s) = TypeInteger
         \<or> Type (scalars s) = TypeNumber \<or> Type (scalars s) = TypeString
      then assign (\<lambda>a. a\<lparr>Nullable := Some isPointer\<rparr>) s
      else s)"

definition lookUpByType :: "WellKnown \<Rightarrow> Schema" where
  "lookUpByType w =
     (case w of
        timeType \<Rightarrow> assign (\<lambda>a. a\<lparr>Type := TypeString, Format := ''date-time''\<rparr>) zeroSchema
      | urlType \<Rightarrow> assign (\<lambda>a. a\<lparr>Type := TypeString, Format := ''uri''\<rparr>) zeroSchema
      | ipType \<Rightarrow> assign (\<lambda>a. a\<lparr>Type := TypeString, Format := ''ipv4''\<rparr>) zeroSchema
      | ipAddrType \<Rightarrow> assign (\<lambda>a. a\<lparr>Type := TypeString, Format := ''ipv4''\<rparr>) zeroSchema)"

definition minZero :: float64 where
  "minZero = 0"

definition lookUpByKind :: "Kind \<Rightarrow> Schema option" where
  "lookUpByKind k =
     (let int32 = assign (\<lambda>a. a\<lparr>Type := TypeInteger, Format := formatInt32\<rparr>) zeroSchema;
          int64 = assign (\<lambda>a. a\<lparr>Type := TypeInteger, Format := formatInt64\<rparr>) zeroSchema;
          unsigned = assign (\<lambda>a. a\<lparr>Minimum := Some minZero\<rparr>)
      in case k of
           Bool \<Rightarrow> Some (assign (\<lambda>a. a\<lparr>Type := TypeBoolean\<rparr>) zeroSchema)
         | Int8 \<Rightarrow> Some int32 | Int16 \<Rightarrow> Some int32 | Int32 \<Rightarrow> Some int32
         | Int64 \<Rightarrow> Some int64
         | Uint8 \<Rightarrow> Some (unsigned int32) | Uint16 \<Rightarrow> Some (unsigned int32)
         | Uint32 \<Rightarrow> Some (unsigned int32)
         | Uint64 \<Rightarrow> Some (unsigned int64)
         | Float32 \<Rightarrow> Some (assign (\<lambda>a. a\<lparr>Type := TypeNumber, Format := ''float''\<rparr>) zeroSchema)
         | Float64 \<Rightarrow> Some (assign (\<lambda>a. a\<lparr>Type := TypeNumber, Format := ''double''\<rparr>) zeroSchema)
         | String \<Rightarrow> Some (assign (\<lambda>a. a\<lparr>Type := TypeString\<rparr>) zeroSchema)
         | _ \<Rightarrow> None)"

text \<open>\<^verbatim>\<open>schemaForSimpleType\<close>: the exact-type table, then \<^verbatim>\<open>int\<close>/\<^verbatim>\<open>uint\<close>, then the kind table.\<close>

definition schemaForSimpleType :: "world \<Rightarrow> tid \<Rightarrow> bool \<Rightarrow> Schema option" where
  "schemaForSimpleType env t isPointer =
     (case wellKnown (typeOf env t) of
        Some w \<Rightarrow> Some (applyNullableForScalar (lookUpByType w) isPointer)
      | None \<Rightarrow>
          (let kind = Kind (typeOf env t) in
           if kind = IntK \<or> kind = Uint then
             (let s0 = assign (\<lambda>a. a\<lparr>Type := TypeInteger\<rparr>) zeroSchema;
                  s1 = (if UintSize env = 32
                        then assign (\<lambda>a. a\<lparr>Format := formatInt32\<rparr>) s0
                        else assign (\<lambda>a. a\<lparr>Format := formatInt64\<rparr>) s0);
                  s2 = (if kind = Uint then assign (\<lambda>a. a\<lparr>Minimum := Some minZero\<rparr>) s1 else s1)
              in Some (applyNullableForScalar s2 isPointer))
           else case lookUpByKind kind of
                  Some found \<Rightarrow> Some (applyNullableForScalar found isPointer)
                | None \<Rightarrow> None))"

text \<open>
  \<^verbatim>\<open>schemaForSlice\<close>. \<open>rSchema\<close> is the builder's registry \<^verbatim>\<open>b.r\<close>, called back for the
  element type.
\<close>

definition schemaForSlice ::
  "registry_call \<Rightarrow> world \<Rightarrow> mapRegistry \<Rightarrow> tid \<Rightarrow> bool \<Rightarrow> build_result" where
  "schemaForSlice rSchema env r t isPointer =
     (if Kind (typeOf env (Elem (typeOf env t))) = Uint8
      then Return (Inr (Some (assign (\<lambda>a. a\<lparr>Type := TypeString,
                 ContentEncoding := contentEncodingBase64,
                 ContentMediaType := ''application/octet-stream'',
                 Nullable := Some isPointer\<rparr>) zeroSchema)), r)
      else
        (case rSchema r (Elem (typeOf env t)) True (Name (typeOf env t) @ ''Item'') of
           NoResult \<Rightarrow> NoResult
         | Panic p \<Rightarrow> Panic p
         | Return (items, r') \<Rightarrow>
             (let a0 = zeroScalars\<lparr>Type := TypeArray, Nullable := Some (DefaultArrayNullable env)\<rparr>;
                  a1 = (if Kind (typeOf env t) = Array
                        then a0\<lparr>MinItems := Some (Len (typeOf env t)),
                                MaxItems := Some (Len (typeOf env t))\<rparr>
                        else a0)
              in Return (Inr (Some (Schema a1 items [] None)), r'))))"

text \<open>
  The loop of \<^verbatim>\<open>processStructFields\<close> fills the caller's object schema \<^verbatim>\<open>s\<close>, the maps
  \<^verbatim>\<open>props\<close> and \<^verbatim>\<open>requiredMap\<close> and the slices \<^verbatim>\<open>propNames\<close> and \<^verbatim>\<open>required\<close>; the registry
  changes through the calls for the field types.
\<close>

record fields_acc =
  acc_s :: Schema
  acc_props :: "(string \<times> Schema) list"
  acc_propNames :: "string list"
  acc_required :: "string list"
  acc_requiredMap :: "(string \<times> bool) list"
  acc_registry :: mapRegistry

text \<open>
  \<^verbatim>\<open>processStructFields\<close>: one equation per iteration of the loop over the metadata
  fields. \<^verbatim>\<open>t.Field(i)\<close> panics when \<open>i\<close> is not the index of a field; a nil field schema
  skips the field.
\<close>

fun processStructFields ::
  "registry_call \<Rightarrow> world \<Rightarrow> tid \<Rightarrow> FieldMetadata list \<Rightarrow> fields_acc \<Rightarrow> fields_acc outcome"
where
  "processStructFields rSchema env t [] acc = Return acc"
| "processStructFields rSchema env t (fieldMeta # rest) acc =
     (let name = extractFieldName fieldMeta;
          fieldRequired = determineRequired fieldMeta
      in if length (FieldTypes (typeOf env t)) \<le> Index fieldMeta
         then Panic (FieldIndexOutOfRange t (Index fieldMeta))
         else
           (case rSchema (acc_registry acc) (FieldTypes (typeOf env t) ! Index fieldMeta) True
                   (Name (typeOf env t) @ StructFieldName fieldMeta @ ''Struct'') of
              NoResult \<Rightarrow> NoResult
            | Panic p \<Rightarrow> Panic p
            | Return (None, r') \<Rightarrow>
                processStructFields rSchema env t rest (acc\<lparr>acc_registry := r'\<rparr>)
            | Return (Some fs0, r') \<Rightarrow>
                (let fs1 = applyOpenAPIMetadata fs0 fieldMeta;
                     fs2 = applyValidateMetadata fs1 fieldMeta;
                     fs3 = (if fieldRequired \<and> Nullable (scalars fs2) = Some True
                            then assign (\<lambda>a. a\<lparr>Nullable := Some False\<rparr>) fs2
                            else fs2);
                     fs4 = applyDefaultValue fs3 fieldMeta
                 in processStructFields rSchema env t rest
                      (acc\<lparr>acc_s := applyDependentRequired (acc_s acc) fieldMeta name,
                           acc_props := AList.update name fs4 (acc_props acc),
                           acc_propNames := acc_propNames acc @ [name],
                           acc_required :=
                             (if fieldRequired then acc_required acc @ [name]
                              else acc_required acc),
                           acc_requiredMap :=
                             (if fieldRequired then AList.update name True (acc_requiredMap acc)
                              else acc_requiredMap acc),
                           acc_registry := r'\<rparr>))))"

text \<open>
  The message of one violation:
  \<^verbatim>\<open>fmt.Errorf("dependent field '%s' for field '%s' does not exist", dependent, field)\<close>.
\<close>

definition dependentMissing :: "string \<Rightarrow> string \<Rightarrow> string" where
  "dependentMissing dep field =
     ''dependent field '' @ [CHR 0x27] @ dep @ [CHR 0x27] @ '' for field '' @ [CHR 0x27]
       @ field @ [CHR 0x27] @ '' does not exist''"

text \<open>
  \<^verbatim>\<open>validateDependentRequired\<close>: every dependent of every entry is looked up in \<^verbatim>\<open>props\<close>;
  the violations are joined into one error (\<^verbatim>\<open>errors.Join\<close>), \<open>None\<close> being the nil error.
  Go visits the entries of a map in no fixed order; the model visits them in the order
  of the association list.
\<close>

definition validateDependentRequired :: "Schema \<Rightarrow> (string \<times> Schema) list \<Rightarrow> error option" where
  "validateDependentRequired s props =
     (let errs = concat (map (\<lambda>(field, dependents).
                   map (\<lambda>dep. dependentMissing dep field)
                     (filter (\<lambda>dep. map_of props dep = None) dependents))
                   (DependentRequired (scalars s)))
      in if length errs > 0 then Some (DependentRequiredFailed errs) else None)"

text \<open>
  Modelled from the spec: \<^verbatim>\<open>StructMetadata.Field(name)\<close> of the external metadata package,
  the "by-name lookup" of a struct's field metadata.
\<close>

definition Field :: "StructMetadata \<Rightarrow> string \<Rightarrow> FieldMetadata option" where
  "Field structMeta name = find (\<lambda>f. StructFieldName f = name) (Fields structMeta)"

text \<open>
  \<^verbatim>\<open>applyStructLevelMetadata\<close>. The assignment
  \<^verbatim>\<open>s.AdditionalProperties = *openAPIStructMeta.AdditionalProperties\<close> dereferences the
  pointer: on nil the Go runtime panics.
\<close>

definition applyStructLevelMetadata :: "Schema \<Rightarrow> StructMetadata \<Rightarrow> Schema outcome" where
  "applyStructLevelMetadata s structMeta =
     (case Field structMeta ''_'' of
        None \<Rightarrow> Return s
      | Some fieldMeta \<Rightarrow>
          (case tag_openapiStruct fieldMeta of
             None \<Rightarrow> Return s
           | Some openAPIStructMeta \<Rightarrow>
               (case OpenAPIStructMetadata.AdditionalProperties openAPIStructMeta of
                  None \<Rightarrow> Panic NilPointerDereference
                | Some b \<Rightarrow>
                    Return (Schema
                      ((scalars s)\<lparr>Nullable := OpenAPIStructMetadata.Nullable openAPIStructMeta\<rparr>)
                      (Items s) (Properties s) (Some (Inl b))))))"

text \<open>\<^verbatim>\<open>schemaForStruct\<close>.\<close>

definition schemaForStruct ::
  "registry_call \<Rightarrow> world \<Rightarrow> mapRegistry \<Rightarrow> tid \<Rightarrow> build_result" where
  "schemaForStruct rSchema env r t =
     (case metadata r t of
        Inl err \<Rightarrow> Return (Inl (StructMetadataFailed t err), r)
      | Inr structMeta \<Rightarrow>
          (case processStructFields rSchema env t (Fields structMeta)
                  \<lparr>acc_s = assign (\<lambda>a. a\<lparr>Type := TypeObject\<rparr>) zeroSchema, acc_props = [],
                   acc_propNames = [], acc_required = [], acc_requiredMap = [],
                   acc_registry = r\<rparr> of
             NoResult \<Rightarrow> NoResult
           | Panic p \<Rightarrow> Panic p
           | Return acc \<Rightarrow>
               (case validateDependentRequired (acc_s acc) (acc_props acc) of
                  Some err \<Rightarrow> Return (Inl err, acc_registry acc)
                | None \<Rightarrow>
                    (case applyStructLevelMetadata (acc_s acc) structMeta of
                       NoResult \<Rightarrow> NoResult
                     | Panic p \<Rightarrow> Panic p
                     | Return s1 \<Rightarrow>
                         Return (Inr (Some (Schema
                           ((scalars s1)\<lparr>propertyNames := acc_propNames acc,
                                          Required := acc_required acc,
                                          requiredMap := acc_requiredMap acc\<rparr>)
                           (Items s1) (acc_props acc) (Schema.AdditionalProperties s1))),
                           acc_registry acc)))))"

text \<open>\<^verbatim>\<open>schemaFromType\<close>: capabilities, the tables, then the switch on the kind.\<close>

definition schemaFromType ::
  "registry_call \<Rightarrow> world \<Rightarrow> mapRegistry \<Rightarrow> tid \<Rightarrow> build_result" where
  "schemaFromType rSchema env r t0 =
     (let isPointer = (Kind (typeOf env t0) = Pointer) in
      case deref env t0 of
        None \<Rightarrow> NoResult
      | Some t \<Rightarrow>
          (case schemaFromInterface env t isPointer of
             Some s \<Rightarrow> Return (Inr (Some s), r)
           | None \<Rightarrow>
               (case schemaForSimpleType env t isPointer of
                  Some s \<Rightarrow> Return (Inr (Some s), r)
                | None \<Rightarrow>
                    (case Kind (typeOf env t) of
                       Slice \<Rightarrow> schemaForSlice rSchema env r t isPointer
                     | Array \<Rightarrow> schemaForSlice rSchema env r t isPointer
                     | Map \<Rightarrow>
                         (case rSchema r (Elem (typeOf env t)) True
                                 (Name (typeOf env t) @ ''Value'') of
                            NoResult \<Rightarrow> NoResult
                          | Panic p \<Rightarrow> Panic p
                          | Return (v, r') \<Rightarrow>
                              Return (Inr (Some (Schema (zeroScalars\<lparr>Type := TypeObject\<rparr>)
                                None [] (Some (Inr v)))), r'))
                     | Struct \<Rightarrow> schemaForStruct rSchema env r t
                     | Interface \<Rightarrow> Return (Inr (Some zeroSchema), r)
                     | _ \<Rightarrow> Return (Inr None, r)))))"

text \<open>\<^verbatim>\<open>SchemaFromType\<close>: the generated schema, passed through the type's transformer.\<close>

definition SchemaFromType ::
  "registry_call \<Rightarrow> world \<Rightarrow> mapRegistry \<Rightarrow> tid \<Rightarrow> build_result" where
  "SchemaFromType rSchema env r t0 =
     (case schemaFromType rSchema env r t0 of
        NoResult \<Rightarrow> NoResult
      | Panic p \<Rightarrow> Panic p
      | Return (Inl err, r') \<Rightarrow> Return (Inl err, r')
      | Return (Inr s, r') \<Rightarrow>
          (case deref env t0 of
             None \<Rightarrow> NoResult
           | Some t \<Rightarrow>
               (case schemaTransformer (typeOf env t) of
                  Some TransformSchema \<Rightarrow> Return (Inr (TransformSchema s), r')
                | None \<Rightarrow> Return (Inr s, r'))))"

section \<open>The registry (openapi_registry.go)\<close>

text \<open>The Go literal \<^verbatim>\<open>&Schema{Ref: r.prefix + name}\<close>.\<close>

definition refSchema :: "string \<Rightarrow> Schema" where
  "refSchema ref = assign (\<lambda>a. a\<lparr>Ref := ref\<rparr>) zeroSchema"

text \<open>
  One activation of \<^verbatim>\<open>mapRegistry.Schema\<close>. The calls nested in it (the recursive call
  for an alias and the calls the builder makes through its registry) go through
  \<open>rSchema\<close>. \<open>getsRef\<close> follows the source: struct kind, except \<^verbatim>\<open>time.Time\<close> and the
  types with one of the two capabilities. An error of the builder is a panic.
\<close>

definition mapRegistry_Schema_body ::
  "registry_call \<Rightarrow> world \<Rightarrow> registry_call" where
  "mapRegistry_Schema_body rSchema env r t0 allowRef hint =
     (case deref env t0 of
        None \<Rightarrow> NoResult
      | Some t \<Rightarrow>
          (let origType = (if Kind (typeOf env t) = Array \<or> Kind (typeOf env t) = Slice
                           then t else t0)
           in case aliases r t of
                Some alias \<Rightarrow> rSchema r alias allowRef hint
              | None \<Rightarrow>
                  (let getsRef = (Kind (typeOf env t) = Struct
                                   \<and> wellKnown (typeOf env t) \<noteq> Some timeType
                                   \<and> schemaProvider (typeOf env t) = None
                                   \<and> \<not> textUnmarshaler (typeOf env t));
                       name = namer r origType hint
                   in case (if getsRef then schemas r name else None) of
                        Some s \<Rightarrow>
                          if t \<notin> seen r then Panic (DuplicateName name t (types r name))
                          else if allowRef then Return (Some (refSchema (prefix r @ name)), r)
                          else Return (s, r)
                      | None \<Rightarrow>
                          (let r1 = (if getsRef
                                     then r\<lparr>schemas := (schemas r)(name \<mapsto> Some zeroSchema),
                                            types := (types r)(name \<mapsto> t),
                                            seen := insert t (seen r)\<rparr>
                                     else r)
                           in case SchemaFromType rSchema env r1 origType of
                                NoResult \<Rightarrow> NoResult
                              | Panic p \<Rightarrow> Panic p
                              | Return (Inl err, r2) \<Rightarrow> Panic (GenerateFailed origType err)
                              | Return (Inr s, r2) \<Rightarrow>
                                  (let r3 = (if getsRef
                                             then r2\<lparr>schemas := (schemas r2)(name \<mapsto> s)\<rparr>
                                             else r2)
                                   in if getsRef \<and> allowRef
                                      then Return (Some (refSchema (prefix r3 @ name)), r3)
                                      else Return (s, r3))))))"

text \<open>
  \<^verbatim>\<open>mapRegistry.Schema\<close>, with a bound on the depth to which its calls nest: at depth 0
  there is no result. The method returns on an input when some bound gives a result
  other than \<open>NoResult\<close>.
\<close>

fun mapRegistry_Schema :: "nat \<Rightarrow> world \<Rightarrow> registry_call" where
  "mapRegistry_Schema 0 env r t allowRef hint = NoResult"
| "mapRegistry_Schema (Suc n) env r t allowRef hint =
     mapRegistry_Schema_body (mapRegistry_Schema n env) env r t allowRef hint"

text \<open>\<^verbatim>\<open>RegisterTypeAlias\<close> and \<^verbatim>\<open>MarkInlineOnly\<close>.\<close>

definition RegisterTypeAlias :: "mapRegistry \<Rightarrow> tid \<Rightarrow> tid \<Rightarrow> mapRegistry" where
  "RegisterTypeAlias r t alias = r\<lparr>aliases := (aliases r)(t \<mapsto> alias)\<rparr>"

definition MarkInlineOnly :: "world \<Rightarrow> mapRegistry \<Rightarrow> tid \<Rightarrow> string \<Rightarrow> mapRegistry option" where
  "MarkInlineOnly env r t0 hint =
     (case deref env t0 of
        None \<Rightarrow> None
      | Some t \<Rightarrow> Some (r\<lparr>inlineOnly := insert (namer r t hint) (inlineOnly r)\<rparr>))"

subsection \<open>The default naming strategy\<close>

text \<open>\<^verbatim>\<open>strings.ReplaceAll(name, "[]", "List[")\<close>.\<close>

fun replaceListBrackets :: "string \<Rightarrow> string" where
  "replaceListBrackets [] = []"
| "replaceListBrackets [c] = [c]"
| "replaceListBrackets (c # d # rest) =
     (if c = CHR ''['' \<and> d = CHR '']'' then ''List['' @ replaceListBrackets rest
      else c # replaceListBrackets (d # rest))"

text \<open>\<^verbatim>\<open>strings.FieldsFunc\<close>: the maximal runs of characters that are not separators.\<close>

fun FieldsFunc :: "(char \<Rightarrow> bool) \<Rightarrow> string \<Rightarrow> string \<Rightarrow> string list" where
  "FieldsFunc f cur [] = (if cur = [] then [] else [cur])"
| "FieldsFunc f cur (c # cs) =
     (if f c then (if cur = [] then [] else [cur]) @ FieldsFunc f [] cs
      else FieldsFunc f (cur @ [c]) cs)"

text \<open>\<^verbatim>\<open>strings.Split(part, ".")\<close>: never empty, empty segments kept.\<close>

fun Split_dot :: "string \<Rightarrow> string \<Rightarrow> string list" where
  "Split_dot cur [] = [cur]"
| "Split_dot cur (c # cs) =
     (if c = CHR ''.'' then cur # Split_dot [] cs else Split_dot (cur @ [c]) cs)"

text \<open>
  \<^verbatim>\<open>strings.ToUpper(string(r)) + base[size:]\<close> for the first rune \<open>r\<close> of \<open>base\<close>. An empty
  \<open>base\<close> decodes to \<^verbatim>\<open>utf8.RuneError\<close> with size 0, whose string is the three bytes of
  U+FFFD. The model covers names that start with an ASCII character; the upper-casing of
  other runes is left to the Unicode tables of the Go library.
\<close>

definition upperFirst :: "string \<Rightarrow> string" where
  "upperFirst base =
     (case base of
        [] \<Rightarrow> [CHR 0xEF, CHR 0xBF, CHR 0xBD]
      | c # rest \<Rightarrow>
          (if (97 :: nat) \<le> of_char c \<and> of_char c \<le> (122 :: nat)
           then char_of (of_char c - (32 :: nat)) # rest
           else c # rest))"

text \<open>
  \<^verbatim>\<open>DefaultSchemaNamer\<close>. The registry calls the namer on a type on which \<^verbatim>\<open>deref\<close> has
  returned already.
\<close>

definition DefaultSchemaNamer :: "world \<Rightarrow> tid \<Rightarrow> string \<Rightarrow> string" where
  "DefaultSchemaNamer env t hint =
     (case deref env t of
        None \<Rightarrow> []
      | Some t' \<Rightarrow>
          (let name0 = Name (typeOf env t');
               name1 = (if name0 = [] then hint else name0);
               name2 = replaceListBrackets name1
           in concat (map (\<lambda>part. upperFirst (last (Split_dot [] part)))
                (FieldsFunc (\<lambda>c. c = CHR ''['' \<or> c = CHR '']'' \<or> c = CHR ''*'' \<or> c = CHR '','')
                   [] name2))))"

text \<open>\<^verbatim>\<open>NewMapRegistry\<close>.\<close>

definition NewMapRegistry ::
  "string \<Rightarrow> (tid \<Rightarrow> string \<Rightarrow> string) \<Rightarrow> (tid \<Rightarrow> string + StructMetadata) \<Rightarrow> mapRegistry" where
  "NewMapRegistry pfx nm m =
     \<lparr>prefix = pfx, schemas = Map.empty, types = Map.empty, seen = {}, inlineOnly = {},
      namer = nm, aliases = Map.empty, metadata = m\<rparr>"

section \<open>The binary-format transform (openapi_response.go)\<close>

text \<open>
  \<^verbatim>\<open>transformSchemaForFileResponse\<close> takes and returns a \<^verbatim>\<open>*Schema\<close>. To tell a copy from a
  change in place, schemas live in a store: an address is an index into the list of
  allocated schemas, \<open>None\<close> is nil, and \<^verbatim>\<open>sCopy := *s; return &sCopy\<close> allocates a fresh
  address. A pointer of the program refers to an allocated schema.
\<close>

type_synonym store = "Schema list"

definition transformSchemaForFileResponse :: "store \<Rightarrow> nat option \<Rightarrow> store \<times> nat option" where
  "transformSchemaForFileResponse h s =
     (case s of
        None \<Rightarrow> (h, None)
      | Some p \<Rightarrow>
          if Type (scalars (h ! p)) = TypeString
             \<and> ContentEncoding (scalars (h ! p)) = contentEncodingBase64
          then (h @ [assign (\<lambda>a. a\<lparr>ContentEncoding := [], Format := formatBinary\<rparr>) (h ! p)],
                Some (length h))
          else (h, Some p))"

section \<open>Annotation parsers (package metadata)\<close>

text \<open>\<^verbatim>\<open>parseBool\<close> (metadata/utils.go): \<open>None\<close> is the nil \<^verbatim>\<open>*bool\<close>.\<close>

definition parseBool :: "string \<Rightarrow> bool option" where
  "parseBool v =
     (if v = [] then Some True
      else if v = ''true'' then Some True
      else if v = ''false'' then Some False
      else None)"

text \<open>
  The parsers call \<^verbatim>\<open>tagparser.Parse\<close> of the package \<^verbatim>\<open>github.com/talav/tagparser\<close> and
  read the \<^verbatim>\<open>Options\<close> of its result, a map from option keys to values. In the parsers
  below it is the parameter \<open>Parse\<close>: an error message, or the options as an association
  list with one entry per key (Go visits them in no fixed order; the model visits them in
  the order of the list).
\<close>

type_synonym tag_parser = "string \<Rightarrow> string + (string \<times> string) list"

text \<open>
  \<^verbatim>\<open>ParseOpenAPIStructTag\<close>: starting from the zero record, every option is applied in
  turn; unknown keys are ignored.
\<close>

definition ParseOpenAPIStructTag ::
  "tag_parser \<Rightarrow> string \<Rightarrow> string \<Rightarrow> string + OpenAPIStructMetadata" where
  "ParseOpenAPIStructTag Parse fieldName tagValue =
     (case Parse tagValue of
        Inl err \<Rightarrow>
          Inl (''field '' @ fieldName @ '': failed to parse openapiStruct tag: '' @ err)
      | Inr options \<Rightarrow>
          Inr (fold (\<lambda>(key, v) osm.
                  if key = ''additionalProperties''
                  then osm\<lparr>OpenAPIStructMetadata.AdditionalProperties := parseBool v\<rparr>
                  else if key = ''nullable''
                  then osm\<lparr>OpenAPIStructMetadata.Nullable := parseBool v\<rparr>
                  else osm)
                options
                \<lparr>OpenAPIStructMetadata.AdditionalProperties = None,
                 OpenAPIStructMetadata.Nullable = None\<rparr>))"

text \<open>
  \<^verbatim>\<open>ParseDependentRequiredTag\<close>: the dependents are the keys of the parsed options, as
  they are.
\<close>

definition ParseDependentRequiredTag ::
  "tag_parser \<Rightarrow> string \<Rightarrow> string \<Rightarrow> string + DependentRequiredMetadata" where
  "ParseDependentRequiredTag Parse fieldName tagValue =
     (case Parse tagValue of
        Inl err \<Rightarrow>
          Inl (''field '' @ fieldName @ '': failed to parse dependent required tag: '' @ err)
      | Inr options \<Rightarrow> Inr \<lparr>Dependents = map fst options\<rparr>)"

subsection \<open>The tag parser\<close>

text \<open>
  Pieces of a string cut at a separator that stands outside single quotes; \<open>None\<close> when
  a quote is left open.
\<close>

fun splitOutside :: "char \<Rightarrow> bool \<Rightarrow> string \<Rightarrow> string \<Rightarrow> string list option" where
  "splitOutside sep quoted cur [] = (if quoted then None else Some [cur])"
| "splitOutside sep quoted cur (c # cs) =
     (if c = CHR 0x27 then splitOutside sep (\<not> quoted) (cur @ [c]) cs
      else if c = sep \<and> \<not> quoted
        then map_option (\<lambda>rest. cur # rest) (splitOutside sep False [] cs)
      else splitOutside sep quoted (cur @ [c]) cs)"

definition isSpace :: "char \<Rightarrow> bool" where
  "isSpace c = (c = CHR '' '' \<or> c = CHR 0x09 \<or> c = CHR 0x0A \<or> c = CHR 0x0D)"

definition trimSpace :: "string \<Rightarrow> string" where
  "trimSpace str = rev (dropWhile isSpace (rev (dropWhile isSpace str)))"

definition unquote :: "string \<Rightarrow> string" where
  "unquote str =
     (if 2 \<le> length str \<and> hd str = CHR 0x27 \<and> last str = CHR 0x27
      then butlast (tl str) else str)"

text \<open>One list token: a key, or \<^verbatim>\<open>key=value\<close>.\<close>

definition parseToken :: "string \<Rightarrow> (string \<times> string) option" where
  "parseToken token =
     (case splitOutside (CHR ''='') False [] token of
        None \<Rightarrow> None
      | Some [] \<Rightarrow> None
      | Some (k # vs) \<Rightarrow>
          Some (unquote (trimSpace k),
                unquote (trimSpace (case vs of
                                      [] \<Rightarrow> []
                                    | v # others \<Rightarrow> v @ concat (map (\<lambda>w. CHR ''='' # w) others)))))"

text \<open>The tokens of an annotation value: its comma-separated pieces, none for the empty value.\<close>

definition tokens :: "string \<Rightarrow> (string \<times> string) option list option" where
  "tokens tagValue =
     (if tagValue = [] then Some []
      else map_option (map parseToken) (splitOutside (CHR '','') False [] tagValue))"

text \<open>
  Modelled from the spec: \<^verbatim>\<open>tagparser.Parse\<close>, whose code is not among the sources
  ("duplicate or malformed list tokens are a parse error"; "must tolerate an empty
  annotation string"; "must fail with a descriptive error on syntactically invalid
  input, never silently drop the whole annotation"). A token is malformed when a quote
  is left open or its key is empty, which is what the parser tests under src/ expect
  ("tagparser doesn't allow empty keys", "doesn't allow whitespace-only keys", an unclosed
  quote fails); they also fix the comma separator, the trimmed blanks and the single
  quotes.
\<close>

definition tagparser_Parse :: tag_parser where
  "tagparser_Parse tagValue =
     (case tokens tagValue of
        None \<Rightarrow> Inl ''unclosed quote''
      | Some toks \<Rightarrow>
          if None \<in> set toks then Inl ''malformed token''
          else if [] \<in> set (map (\<lambda>tok. fst (the tok)) toks) then Inl ''empty key''
          else if \<not> distinct (map (\<lambda>tok. fst (the tok)) toks) then Inl ''duplicate key''
          else Inr (map the toks))"

section \<open>Example types\<close>

text \<open>
  The types of the registry tests and of the scenarios below. \<open>ex_type\<close> is a type
  without capabilities, \<open>ex_field\<close> the metadata of a field that carries a \<^verbatim>\<open>schema\<close>
  annotation only.
  \<^verbatim>\<open>
  type Node struct { Next *Node `schema:"next"`; Value int `schema:"value,required"` }
  type Account struct {
      ID     int     `schema:"id,required"`
      Secret *string `schema:"secret,required" openapi:"hidden"`
      Age    *int    `schema:"age" validate:"required"`
  }
  type Address struct { Street string `schema:"street,required" openapi:"title=Street Address"` }
  type User struct {
      Name    string  `schema:"name,required"`
      Address Address `schema:"address,required" openapi:"title=User Address"`
  }
  type P *struct { Next P `schema:"next"` }
  type Foo struct { X int `schema:"x"` }
  struct { Y string `schema:"y"` }
  type PaymentInput struct {
      PaymentMethod    string `schema:"payment_method" dependentRequired:"billing_address,cardholder_name"`
      BillingAddress   string `schema:"billing_address"`
      UseBillingAsShip bool   `schema:"use_billing_as_ship" dependentRequired:"shipping_address"`
  }
  type Config struct { _ struct{} `openapiStruct:"nullable=true"`; Name string `schema:"name"` }
  \<close>
\<close>

definition ex_type :: "Kind \<Rightarrow> string \<Rightarrow> tid \<Rightarrow> tid list \<Rightarrow> rtype" where
  "ex_type k n e fts = \<lparr>Kind = k, Name = n, Elem = e, Len = 0, FieldTypes = fts, wellKnown = None,
     schemaProvider = None, textUnmarshaler = False, schemaTransformer = None\<rparr>"

definition ex_field :: "string \<Rightarrow> nat \<Rightarrow> string \<Rightarrow> bool \<Rightarrow> FieldMetadata" where
  "ex_field n i pn rq = \<lparr>StructFieldName = n, Index = i,
     tag_schema = Some \<lparr>ParamName = pn, SchemaMetadata.Required = rq\<rparr>,
     tag_openapi = None, tag_validate = None, tag_default = None,
     tag_dependentRequired = None, tag_openapiStruct = None\<rparr>"

definition ex_openapi :: OpenAPIMetadata where
  "ex_openapi = \<lparr>OpenAPIMetadata.ReadOnly = None, OpenAPIMetadata.WriteOnly = None,
     OpenAPIMetadata.Deprecated = None, OpenAPIMetadata.Hidden = None,
     OpenAPIMetadata.Title = [], OpenAPIMetadata.Description = [], OpenAPIMetadata.Format = [],
     OpenAPIMetadata.Examples = [], OpenAPIMetadata.Extensions = []\<rparr>"

definition ex_validate :: ValidateMetadata where
  "ex_validate = \<lparr>ValidateMetadata.Minimum = None, ValidateMetadata.ExclusiveMinimum = None,
     ValidateMetadata.Maximum = None, ValidateMetadata.ExclusiveMaximum = None,
     ValidateMetadata.MultipleOf = None, ValidateMetadata.Pattern = [],
     ValidateMetadata.Format = [], ValidateMetadata.Enum = [],
     ValidateMetadata.Required = None\<rparr>"

definition ex_world :: world where
  "ex_world = \<lparr>typeOf = (\<lambda>t.
       if t = 0 then ex_type IntK ''int'' 0 []
       else if t = 1 then ex_type String ''string'' 0 []
       else if t = 2 then ex_type Pointer [] 0 []
       else if t = 3 then ex_type Pointer [] 1 []
       else if t = 4 then ex_type Struct ''Node'' 0 [5, 0]
       else if t = 5 then ex_type Pointer [] 4 []
       else if t = 6 then ex_type Struct ''Account'' 0 [0, 3, 2]
       else if t = 7 then ex_type Struct ''Address'' 0 [1]
       else if t = 8 then ex_type Struct ''User'' 0 [1, 7]
       else if t = 9 then ex_type Struct [] 0 [10]
       else if t = 10 then ex_type Pointer ''P'' 9 []
       else if t = 11 then ex_type Struct ''Foo'' 0 [0]
       else if t = 12 then ex_type Struct [] 0 [1]
       else if t = 13 then ex_type Struct ''PaymentInput'' 0 [1, 1, 18]
       else if t = 14 then ex_type Struct ''Config'' 0 [15, 1]
       else if t = 15 then ex_type Struct [] 0 []
       else if t = 16 then ex_type Slice [] 17 []
       else if t = 17 then ex_type Uint8 ''uint8'' 0 []
       else if t = 18 then ex_type Bool ''bool'' 0 []
       else ex_type Invalid [] 0 []),
     UintSize = 64, DefaultArrayNullable = True\<rparr>"

definition ex_metadata :: "tid \<Rightarrow> string + StructMetadata" where
  "ex_metadata t =
     (if t = 4 then Inr \<lparr>Fields =
        [ex_field ''Next'' 0 ''next'' False, ex_field ''Value'' 1 ''value'' True]\<rparr>
      else if t = 6 then Inr \<lparr>Fields =
        [ex_field ''ID'' 0 ''id'' True,
         (ex_field ''Secret'' 1 ''secret'' True)\<lparr>tag_openapi :=
            Some (ex_openapi\<lparr>OpenAPIMetadata.Hidden := Some True\<rparr>)\<rparr>,
         (ex_field ''Age'' 2 ''age'' False)\<lparr>tag_validate :=
            Some (ex_validate\<lparr>ValidateMetadata.Required := Some True\<rparr>)\<rparr>]\<rparr>
      else if t = 7 then Inr \<lparr>Fields =
        [(ex_field ''Street'' 0 ''street'' True)\<lparr>tag_openapi :=
            Some (ex_openapi\<lparr>OpenAPIMetadata.Title := ''Street Address''\<rparr>)\<rparr>]\<rparr>
      else if t = 8 then Inr \<lparr>Fields =
        [ex_field ''Name'' 0 ''name'' True,
         (ex_field ''Address'' 1 ''address'' True)\<lparr>tag_openapi :=
            Some (ex_openapi\<lparr>OpenAPIMetadata.Title := ''User Address''\<rparr>)\<rparr>]\<rparr>
      else if t = 9 then Inr \<lparr>Fields = [ex_field ''Next'' 0 ''next'' False]\<rparr>
      else if t = 11 then Inr \<lparr>Fields = [ex_field ''X'' 0 ''x'' False]\<rparr>
      else if t = 12 then Inr \<lparr>Fields = [ex_field ''Y'' 0 ''y'' False]\<rparr>
      else if t = 13 then Inr \<lparr>Fields =
        [(ex_field ''PaymentMethod'' 0 ''payment_method'' False)\<lparr>tag_dependentRequired :=
            Some \<lparr>Dependents = [''billing_address'', ''cardholder_name'']\<rparr>\<rparr>,
         ex_field ''BillingAddress'' 1 ''billing_address'' False,
         (ex_field ''UseBillingAsShip'' 2 ''use_billing_as_ship'' False)\<lparr>tag_dependentRequired :=
            Some \<lparr>Dependents = [''shipping_address'']\<rparr>\<rparr>]\<rparr>
      else if t = 14 then Inr \<lparr>Fields =
        [(ex_field ''_'' 0 ''_'' False)\<lparr>tag_openapiStruct :=
            (case ParseOpenAPIStructTag tagparser_Parse ''_'' ''nullable=true'' of
               Inr osm \<Rightarrow> Some osm | Inl err \<Rightarrow> None)\<rparr>,
         ex_field ''Name'' 1 ''name'' False]\<rparr>
      else if t = 15 then Inr \<lparr>Fields = []\<rparr>
      else Inl ''not a struct'')"

text \<open>\<^verbatim>\<open>NewMapRegistry("#/components/schemas/", DefaultSchemaNamer, metadata)\<close>, as in the tests.\<close>

definition ex_registry :: mapRegistry where
  "ex_registry =
     NewMapRegistry ''#/components/schemas/'' (DefaultSchemaNamer ex_world) ex_metadata"

section \<open>Unfolding the model\<close>

lemmas merge_defs = extractFieldName_def determineRequired_def applyOpenAPIMetadata_def
  applyValidateMetadata_def applyMinMaxConstraints_def applyStringMinMax_def
  applyNumericMinMax_def applyArrayMinMax_def applyObjectMinMax_def applyEnumConstraints_def
  enumOrConst_def applyDefaultValue_def applyDependentRequired_def assign_def
  zeroSchema_def zeroScalars_def TypeBoolean_def TypeInteger_def TypeNumber_def TypeString_def
  TypeArray_def TypeObject_def formatInt32_def formatInt64_def

lemmas builder_defs = schemaFromInterface_def applyNullableForScalar_def lookUpByType_def
  lookUpByKind_def schemaForSimpleType_def schemaForSlice_def validateDependentRequired_def
  Field_def applyStructLevelMetadata_def schemaForStruct_def schemaFromType_def
  SchemaFromType_def refSchema_def mapRegistry_Schema_body_def minZero_def
  contentEncodingBase64_def

lemmas namer_defs = DefaultSchemaNamer_def upperFirst_def

lemmas parser_defs = parseBool_def ParseOpenAPIStructTag_def ParseDependentRequiredTag_def
  tagparser_Parse_def tokens_def parseToken_def trimSpace_def isSpace_def unquote_def

lemmas example_defs = ex_type_def ex_field_def ex_openapi_def ex_validate_def ex_world_def
  ex_metadata_def ex_registry_def NewMapRegistry_def

section \<open>Required fields\<close>




section \<open>Enumerations\<close>



section \<open>The properties of a struct schema\<close>





section \<open>Dependent-required targets\<close>




section \<open>Byte slices\<close>

lemma deref_not_pointer: "Kind (typeOf env t) \<noteq> Pointer \<Longrightarrow> deref env t = Some t"
  by (subst deref.simps) simp

text \<open>
  Claim C7. For a byte-slice type (no capability, not a well-known type, no alias) the
  registry returns a string schema with content encoding \<^verbatim>\<open>base64\<close> and media type
  \<^verbatim>\<open>application/octet-stream\<close>. \<^verbatim>\<open>transformSchemaForFileResponse\<close> on a pointer to such a
  schema returns a fresh address holding a string schema with format \<^verbatim>\<open>binary\<close>, the
  same media type and no content encoding, and the store it was given is a prefix of the
  new store: the input schema is as it was.
\<close>

theorem C7_byte_slice_binary:
  assumes "deref env t0 = Some t"
    and "Kind (typeOf env t) = Slice"
    and "Kind (typeOf env (Elem (typeOf env t))) = Uint8"
    and "wellKnown (typeOf env t) = None"
    and "schemaProvider (typeOf env t) = None"
    and "\<not> textUnmarshaler (typeOf env t)"
    and "schemaTransformer (typeOf env t) = None"
    and "aliases r t = None"
  shows "\<exists>s. mapRegistry_Schema (Suc n) env r t0 allowRef hint = Return (Some s, r)
           \<and> Type (scalars s) = ''string''
           \<and> ContentEncoding (scalars s) = ''base64''
           \<and> ContentMediaType (scalars s) = ''application/octet-stream''
           \<and> (\<forall>h p. p < length h \<and> Type (scalars (h ! p)) = ''string''
                   \<and> ContentEncoding (scalars (h ! p)) = ''base64'' \<longrightarrow>
                 (\<exists>c. transformSchemaForFileResponse h (Some p) = (h @ [c], Some (length h))
                    \<and> (h @ [c]) ! p = h ! p
                    \<and> Type (scalars c) = ''string''
                    \<and> Format (scalars c) = ''binary''
                    \<and> ContentMediaType (scalars c) = ContentMediaType (scalars (h ! p))
                    \<and> ContentEncoding (scalars c) = []))"
proof -
  let ?s = "assign (\<lambda>a. a\<lparr>Type := TypeString, ContentEncoding := contentEncodingBase64,
                 ContentMediaType := ''application/octet-stream'',
                 Nullable := Some False\<rparr>) zeroSchema"
  from assms(2) have np: "Kind (typeOf env t) \<noteq> Pointer" by simp
  have d: "deref env t = Some t" using np by (rule deref_not_pointer)
  have simple: "schemaForSimpleType env t False = None"
    using assms(2,4) by (simp add: schemaForSimpleType_def lookUpByKind_def Let_def)
  have iface: "schemaFromInterface env t False = None"
    using assms(5,6) by (simp add: schemaFromInterface_def)
  have b: "SchemaFromType (mapRegistry_Schema n env) env r t = Return (Inr (Some ?s), r)"
    using assms(2,3,7) d simple iface np
    by (simp add: SchemaFromType_def schemaFromType_def schemaForSlice_def Let_def)
  have call: "mapRegistry_Schema (Suc n) env r t0 allowRef hint = Return (Some ?s, r)"
    using assms(1,2,8) b
    by (simp add: mapRegistry_Schema_body_def Let_def)
  have tr: "\<forall>h p. p < length h \<and> Type (scalars (h ! p)) = ''string''
                   \<and> ContentEncoding (scalars (h ! p)) = ''base64'' \<longrightarrow>
                 (\<exists>c. transformSchemaForFileResponse h (Some p) = (h @ [c], Some (length h))
                    \<and> (h @ [c]) ! p = h ! p
                    \<and> Type (scalars c) = ''string''
                    \<and> Format (scalars c) = ''binary''
                    \<and> ContentMediaType (scalars c) = ContentMediaType (scalars (h ! p))
                    \<and> ContentEncoding (scalars c) = [])"
    by (simp add: transformSchemaForFileResponse_def assign_def
          TypeString_def contentEncodingBase64_def formatBinary_def nth_append)
  show ?thesis
    using call tr
    by (intro exI[of _ ?s])
       (simp add: assign_def zeroSchema_def TypeString_def contentEncodingBase64_def)
qed

text \<open>
  The theorem at \<^verbatim>\<open>[]byte\<close>, with the returned schema as the only schema of the store.
\<close>

theorem C7_byte_slice_binary_witness:
  "\<exists>s c. mapRegistry_Schema 1 ex_world ex_registry 16 True ''Body''
            = Return (Some s, ex_registry)
     \<and> Type (scalars s) = ''string''
     \<and> ContentEncoding (scalars s) = ''base64''
     \<and> ContentMediaType (scalars s) = ''application/octet-stream''
     \<and> transformSchemaForFileResponse [s] (Some 0) = ([s, c], Some 1)
     \<and> Type (scalars c) = ''string''
     \<and> Format (scalars c) = ''binary''
     \<and> ContentMediaType (scalars c) = ''application/octet-stream''
     \<and> ContentEncoding (scalars c) = []"
proof -
  have d: "deref ex_world 16 = Some 16"
    by (simp add: deref.simps example_defs)
  from C7_byte_slice_binary[of ex_world 16 16 ex_registry 0 True "''Body''", OF d]
  obtain s where s: "mapRegistry_Schema 1 ex_world ex_registry 16 True ''Body''
            = Return (Some s, ex_registry)"
      "Type (scalars s) = ''string''" "ContentEncoding (scalars s) = ''base64''"
      "ContentMediaType (scalars s) = ''application/octet-stream''"
    and tr: "\<And>h p. p < length h \<Longrightarrow> Type (scalars (h ! p)) = ''string'' \<Longrightarrow>
                ContentEncoding (scalars (h ! p)) = ''base64'' \<Longrightarrow>
                 (\<exists>c. transformSchemaForFileResponse h (Some p) = (h @ [c], Some (length h))
                    \<and> (h @ [c]) ! p = h ! p
                    \<and> Type (scalars c) = ''string''
                    \<and> Format (scalars c) = ''binary''
                    \<and> ContentMediaType (scalars c) = ContentMediaType (scalars (h ! p))
                    \<and> ContentEncoding (scalars c) = [])"
    by (auto simp: example_defs)
  from tr[of 0 "[s]"] s obtain c where
    "transformSchemaForFileResponse [s] (Some 0) = ([s, c], Some 1)"
    "Type (scalars c) = ''string''" "Format (scalars c) = ''binary''"
    "ContentMediaType (scalars c) = ''application/octet-stream''"
    "ContentEncoding (scalars c) = []"
    by auto
  with s show ?thesis by blast
qed

section \<open>The struct theorems at the example types\<close>



section \<open>Struct-level options\<close>


section \<open>Name collisions\<close>

text \<open>
  Claim C2 says that two distinct types with the same schema name always make the registry
  panic. The registry tests whether the type has been seen, not whether the name belongs
  to it: once the anonymous struct type has been registered under the hint \<^verbatim>\<open>Bar\<close>, a
  request for it under the hint \<^verbatim>\<open>Foo\<close>, the name of the registered type \<^verbatim>\<open>Foo\<close>, returns a
  reference to \<^verbatim>\<open>Foo\<close> (or, refs not allowed, the schema of \<^verbatim>\<open>Foo\<close> with its property
  \<^verbatim>\<open>x\<close>) and does not panic. Without the earlier request the same call panics.
\<close>

theorem C2_collision_not_detected:
  "(case mapRegistry_Schema 2 ex_world ex_registry 11 True [] of
      Return (s1, r1) \<Rightarrow>
        (case mapRegistry_Schema 2 ex_world r1 12 True ''Bar'' of
           Return (s2, r2) \<Rightarrow>
             namer r2 11 [] = ''Foo'' \<and> namer r2 12 ''Foo'' = ''Foo''
             \<and> types r2 ''Foo'' = Some 11
             \<and> mapRegistry_Schema 2 ex_world r2 12 True ''Foo''
                 = Return (Some (refSchema ''#/components/schemas/Foo''), r2)
             \<and> (case schemas r2 ''Foo'' of
                  Some foo \<Rightarrow>
                    mapRegistry_Schema 2 ex_world r2 12 False ''Foo'' = Return (foo, r2)
                    \<and> map_option (\<lambda>u. map fst (Properties u)) foo = Some [''x'']
                | None \<Rightarrow> False)
         | _ \<Rightarrow> False)
    | _ \<Rightarrow> False)
   \<and> (case mapRegistry_Schema 2 ex_world ex_registry 11 True [] of
        Return (s1, r1) \<Rightarrow>
          mapRegistry_Schema 2 ex_world r1 12 True ''Foo''
            = Panic (DuplicateName ''Foo'' 12 (Some 11))
      | _ \<Rightarrow> False)"
  by (simp add: numeral_2_eq_2 merge_defs builder_defs example_defs namer_defs
        deref.simps Let_def)

section \<open>The dependent-required parser\<close>

text \<open>
  Claim C9. \<^verbatim>\<open>ParseDependentRequiredTag\<close> returns an error whenever the tag parser does and
  otherwise the keys of all parsed options, none dropped; with the tag parser of the
  spec, an annotation with a malformed token (an open quote, an empty key) or with a
  duplicate token is an error, and a returned list has one entry per token of the
  annotation, all distinct and none empty.
\<close>

theorem C9_dependent_required_parse_errors:
  "(\<forall>e. Parse tagValue = Inl e \<longrightarrow>
      (\<exists>m. ParseDependentRequiredTag Parse fieldName tagValue = Inl m))
   \<and> (\<forall>options. Parse tagValue = Inr options \<longrightarrow>
        ParseDependentRequiredTag Parse fieldName tagValue
          = Inr \<lparr>Dependents = map fst options\<rparr>)
   \<and> ((tokens tagValue = None
         \<or> (\<exists>toks. tokens tagValue = Some toks
               \<and> (None \<in> set toks \<or> [] \<in> set (map (\<lambda>tok. fst (the tok)) toks)
                    \<or> \<not> distinct (map (\<lambda>tok. fst (the tok)) toks)))) \<longrightarrow>
        (\<exists>m. ParseDependentRequiredTag tagparser_Parse fieldName tagValue = Inl m))
   \<and> (\<forall>md. ParseDependentRequiredTag tagparser_Parse fieldName tagValue = Inr md \<longrightarrow>
        (\<exists>toks. tokens tagValue = Some toks \<and> None \<notin> set toks
           \<and> Dependents md = map (\<lambda>tok. fst (the tok)) toks
           \<and> distinct (Dependents md) \<and> [] \<notin> set (Dependents md)))"
proof (intro conjI allI impI)
  fix e assume "Parse tagValue = Inl e"
  then show "\<exists>m. ParseDependentRequiredTag Parse fieldName tagValue = Inl m"
    by (simp add: ParseDependentRequiredTag_def)
next
  fix options assume "Parse tagValue = Inr options"
  then show "ParseDependentRequiredTag Parse fieldName tagValue
          = Inr \<lparr>Dependents = map fst options\<rparr>"
    by (simp add: ParseDependentRequiredTag_def)
next
  assume "tokens tagValue = None
         \<or> (\<exists>toks. tokens tagValue = Some toks
               \<and> (None \<in> set toks \<or> [] \<in> set (map (\<lambda>tok. fst (the tok)) toks)
                    \<or> \<not> distinct (map (\<lambda>tok. fst (the tok)) toks)))"
  then have "\<exists>e. tagparser_Parse tagValue = Inl e"
    by (auto simp: tagparser_Parse_def)
  then show "\<exists>m. ParseDependentRequiredTag tagparser_Parse fieldName tagValue = Inl m"
    by (auto simp: ParseDependentRequiredTag_def)
next
  fix md
  assume ok: "ParseDependentRequiredTag tagparser_Parse fieldName tagValue = Inr md"
  then obtain options where o: "tagparser_Parse tagValue = Inr options"
    and md: "md = \<lparr>Dependents = map fst options\<rparr>"
    by (auto simp: ParseDependentRequiredTag_def split: sum.splits)
  from o obtain toks where t: "tokens tagValue = Some toks" "None \<notin> set toks"
    "[] \<notin> set (map (\<lambda>tok. fst (the tok)) toks)"
    "distinct (map (\<lambda>tok. fst (the tok)) toks)" "options = map the toks"
    by (auto simp: tagparser_Parse_def split: option.splits if_splits)
  from md t(5) have "Dependents md = map (\<lambda>tok. fst (the tok)) toks"
    by (simp add: comp_def)
  with t show "\<exists>toks. tokens tagValue = Some toks \<and> None \<notin> set toks
           \<and> Dependents md = map (\<lambda>tok. fst (the tok)) toks
           \<and> distinct (Dependents md) \<and> [] \<notin> set (Dependents md)"
    by auto
qed

text \<open>
  The theorem at a duplicate token, an empty token, an open quote, and a well-formed
  annotation.
\<close>

theorem C9_dependent_required_parse_errors_witness:
  "(\<exists>toks. tokens ''a,b,a'' = Some toks \<and> \<not> distinct (map (\<lambda>tok. fst (the tok)) toks))
   \<and> (\<exists>m. ParseDependentRequiredTag tagparser_Parse ''CreditCard'' ''a,b,a'' = Inl m)
   \<and> (\<exists>toks. tokens ''field1,,field2'' = Some toks
         \<and> [] \<in> set (map (\<lambda>tok. fst (the tok)) toks))
   \<and> (\<exists>m. ParseDependentRequiredTag tagparser_Parse ''CreditCard'' ''field1,,field2'' = Inl m)
   \<and> tokens (''a,'' @ [CHR 0x27] @ ''b'') = None
   \<and> (\<exists>m. ParseDependentRequiredTag tagparser_Parse ''CreditCard''
             (''a,'' @ [CHR 0x27] @ ''b'') = Inl m)
   \<and> ParseDependentRequiredTag tagparser_Parse ''CreditCard''
        ''billing_address, cardholder_name''
       = Inr \<lparr>Dependents = [''billing_address'', ''cardholder_name'']\<rparr>"
proof -
  have t1: "tokens ''a,b,a'' = Some [Some (''a'', []), Some (''b'', []), Some (''a'', [])]"
    by (simp add: parser_defs)
  have t2: "tokens ''field1,,field2'' = Some [Some (''field1'', []), Some ([], []), Some (''field2'', [])]"
    by (simp add: parser_defs)
  have t3: "tokens (''a,'' @ [CHR 0x27] @ ''b'') = None"
    by (simp add: parser_defs)
  have t4: "tagparser_Parse ''billing_address, cardholder_name''
              = Inr [(''billing_address'', []), (''cardholder_name'', [])]"
    by (simp add: parser_defs)
  note inst = C9_dependent_required_parse_errors[of tagparser_Parse _ "''CreditCard''"]
  have e1: "\<exists>m. ParseDependentRequiredTag tagparser_Parse ''CreditCard'' ''a,b,a'' = Inl m"
    using inst[of "''a,b,a''", THEN conjunct2, THEN conjunct2, THEN conjunct1] t1 by simp
  have e2: "\<exists>m. ParseDependentRequiredTag tagparser_Parse ''CreditCard'' ''field1,,field2'' = Inl m"
    using inst[of "''field1,,field2''", THEN conjunct2, THEN conjunct2, THEN conjunct1] t2
    by simp
  have e3: "\<exists>m. ParseDependentRequiredTag tagparser_Parse ''CreditCard''
             (''a,'' @ [CHR 0x27] @ ''b'') = Inl m"
    using inst[of "''a,'' @ [CHR 0x27] @ ''b''", THEN conjunct2, THEN conjunct2, THEN conjunct1]
      t3 by simp
  have e4: "ParseDependentRequiredTag tagparser_Parse ''CreditCard''
        ''billing_address, cardholder_name''
       = Inr \<lparr>Dependents = [''billing_address'', ''cardholder_name'']\<rparr>"
    using inst[of "''billing_address, cardholder_name''", THEN conjunct2, THEN conjunct1] t4
    by simp
  from t1 t2 t3 e1 e2 e3 e4 show ?thesis by simp
qed

section \<open>References\<close>

text \<open>
  Against claim C8 as stated: in the schema registered for \<^verbatim>\<open>User\<close> the property
  \<^verbatim>\<open>address\<close> is a reference to \<^verbatim>\<open>Address\<close> that carries the title of the field, as the
  expected JSON of \<^verbatim>\<open>TestRegistry_NestedStructs\<close> has it.
\<close>

theorem C8_ref_schema_with_title_counterexample:
  "(case mapRegistry_Schema 3 ex_world ex_registry 8 True ''User'' of
      Return (s, r) \<Rightarrow>
        (case schemas r ''User'' of
           Some (Some user) \<Rightarrow>
             (case map_of (Properties user) ''address'' of
                Some fs \<Rightarrow> Ref (scalars fs) = ''#/components/schemas/Address''
                            \<and> Title (scalars fs) = ''User Address''
              | None \<Rightarrow> False)
         | _ \<Rightarrow> False)
    | _ \<Rightarrow> False)"
  by (simp add: numeral_3_eq_3 merge_defs builder_defs example_defs namer_defs
        deref.simps Let_def)

text \<open>
  Claim C8, amended. The schema that the registry returns for a ref-worthy type (a
  struct type without alias that is not \<^verbatim>\<open>time.Time\<close> and has neither capability) when
  the caller allows refs has its \<^verbatim>\<open>Ref\<close> set and every other field at its zero value. The
  field-metadata merge then writes on such a schema as on any other: the documentation
  fields, the pattern and the default value stand next to the ref in the field's schema.
\<close>

theorem C8_returned_ref_is_bare:
  assumes "mapRegistry_Schema n env r t0 True hint = Return (s, r')"
    and "deref env t0 = Some t"
    and "aliases r t = None"
    and "Kind (typeOf env t) = Struct"
    and "wellKnown (typeOf env t) \<noteq> Some timeType"
    and "schemaProvider (typeOf env t) = None"
    and "\<not> textUnmarshaler (typeOf env t)"
    and "ref = prefix r' @ namer r t0 hint"
  shows "s = Some (refSchema ref)
     \<and> refSchema ref = Schema (zeroScalars\<lparr>Ref := ref\<rparr>) None [] None
     \<and> (\<forall>f m. tag_openapi f = Some m \<longrightarrow>
          Ref (scalars (applyOpenAPIMetadata (refSchema ref) f)) = ref
          \<and> Title (scalars (applyOpenAPIMetadata (refSchema ref) f)) = OpenAPIMetadata.Title m
          \<and> Description (scalars (applyOpenAPIMetadata (refSchema ref) f))
               = OpenAPIMetadata.Description m)
     \<and> (\<forall>f vm. tag_validate f = Some vm \<longrightarrow>
          Ref (scalars (applyValidateMetadata (refSchema ref) f)) = ref
          \<and> Pattern (scalars (applyValidateMetadata (refSchema ref) f))
               = ValidateMetadata.Pattern vm)
     \<and> (\<forall>f d. tag_default f = Some d \<and> Value d \<noteq> AnyNil \<longrightarrow>
          Ref (scalars (applyDefaultValue (refSchema ref) f)) = ref
          \<and> Default (scalars (applyDefaultValue (refSchema ref) f)) = Value d)"
proof -
  from assms(1) obtain k where n: "n = Suc k" by (cases n) auto
  have s: "s = Some (refSchema ref)"
    using assms unfolding n
    by (auto simp: mapRegistry_Schema_body_def Let_def
          split: option.splits if_splits outcome.splits sum.splits prod.splits)
  have bare: "refSchema x = Schema (zeroScalars\<lparr>Ref := x\<rparr>) None [] None" for x
    by (simp add: refSchema_def assign_def zeroSchema_def)
  have merged: "(\<forall>f m. tag_openapi f = Some m \<longrightarrow>
          Ref (scalars (applyOpenAPIMetadata (refSchema ref) f)) = ref
          \<and> Title (scalars (applyOpenAPIMetadata (refSchema ref) f)) = OpenAPIMetadata.Title m
          \<and> Description (scalars (applyOpenAPIMetadata (refSchema ref) f))
               = OpenAPIMetadata.Description m)
     \<and> (\<forall>f vm. tag_validate f = Some vm \<longrightarrow>
          Ref (scalars (applyValidateMetadata (refSchema ref) f)) = ref
          \<and> Pattern (scalars (applyValidateMetadata (refSchema ref) f))
               = ValidateMetadata.Pattern vm)
     \<and> (\<forall>f d. tag_default f = Some d \<and> Value d \<noteq> AnyNil \<longrightarrow>
          Ref (scalars (applyDefaultValue (refSchema ref) f)) = ref
          \<and> Default (scalars (applyDefaultValue (refSchema ref) f)) = Value d)"
    unfolding bare
    by (simp add: applyOpenAPIMetadata_def applyValidateMetadata_def applyDefaultValue_def
          applyMinMaxConstraints_def applyEnumConstraints_def enumOrConst_def assign_def
          zeroScalars_def TypeString_def TypeInteger_def TypeNumber_def TypeArray_def
          TypeObject_def Let_def)
  show ?thesis
    by (rule conjI[OF s conjI[OF bare merged]])
qed

text \<open>The theorem at the field \<^verbatim>\<open>Address\<close> of \<^verbatim>\<open>User\<close>.\<close>

theorem C8_returned_ref_is_bare_witness:
  "\<exists>s r'. mapRegistry_Schema 2 ex_world ex_registry 7 True ''UserAddressStruct''
             = Return (s, r')
     \<and> prefix r' @ namer ex_registry 7 ''UserAddressStruct'' = ''#/components/schemas/Address''
     \<and> s = Some (Schema (zeroScalars\<lparr>Ref := ''#/components/schemas/Address''\<rparr>) None [] None)
     \<and> Ref (scalars (applyOpenAPIMetadata (refSchema ''#/components/schemas/Address'')
              (ex_field ''Address'' 1 ''address'' True\<lparr>tag_openapi :=
                 Some (ex_openapi\<lparr>OpenAPIMetadata.Title := ''User Address''\<rparr>)\<rparr>)))
         = ''#/components/schemas/Address''
     \<and> Title (scalars (applyOpenAPIMetadata (refSchema ''#/components/schemas/Address'')
              (ex_field ''Address'' 1 ''address'' True\<lparr>tag_openapi :=
                 Some (ex_openapi\<lparr>OpenAPIMetadata.Title := ''User Address''\<rparr>)\<rparr>)))
         = ''User Address''"
proof -
  have "\<exists>s r'. mapRegistry_Schema 2 ex_world ex_registry 7 True ''UserAddressStruct''
             = Return (s, r') \<and> prefix r' = ''#/components/schemas/''"
    by (simp add: numeral_2_eq_2 merge_defs builder_defs example_defs namer_defs
          deref.simps Let_def)
  then obtain s r' where
    call: "mapRegistry_Schema 2 ex_world ex_registry 7 True ''UserAddressStruct''
             = Return (s, r')"
    and pfx: "prefix r' = ''#/components/schemas/''"
    by (elim exE conjE)
  have nm: "namer ex_registry 7 ''UserAddressStruct'' = ''Address''"
    by (simp add: example_defs namer_defs deref.simps)
  have ref: "''#/components/schemas/Address''
               = prefix r' @ namer ex_registry 7 ''UserAddressStruct''"
    by (simp add: pfx nm)
  have d: "deref ex_world 7 = Some 7"
    by (simp add: deref.simps example_defs)
  have a: "aliases ex_registry 7 = None"
    and k: "Kind (typeOf ex_world 7) = Struct"
    and w: "wellKnown (typeOf ex_world 7) \<noteq> Some timeType"
    and p: "schemaProvider (typeOf ex_world 7) = None"
    and u: "\<not> textUnmarshaler (typeOf ex_world 7)"
    by (simp_all add: example_defs)
  note inst = C8_returned_ref_is_bare[OF call d a k w p u ref]
  have all: "s = Some (refSchema ''#/components/schemas/Address'')
     \<and> refSchema ''#/components/schemas/Address''
         = Schema (zeroScalars\<lparr>Ref := ''#/components/schemas/Address''\<rparr>) None [] None
     \<and> (\<forall>f m. tag_openapi f = Some m \<longrightarrow>
          Ref (scalars (applyOpenAPIMetadata (refSchema ''#/components/schemas/Address'') f))
            = ''#/components/schemas/Address''
          \<and> Title (scalars (applyOpenAPIMetadata (refSchema ''#/components/schemas/Address'') f))
            = OpenAPIMetadata.Title m
          \<and> Description (scalars (applyOpenAPIMetadata
               (refSchema ''#/components/schemas/Address'') f))
               = OpenAPIMetadata.Description m)"
    by (rule conjI[OF inst[THEN conjunct1]
          conjI[OF inst[THEN conjunct2, THEN conjunct1]
            inst[THEN conjunct2, THEN conjunct2, THEN conjunct1]]])
  let ?f = "ex_field ''Address'' 1 ''address'' True\<lparr>tag_openapi :=
                 Some (ex_openapi\<lparr>OpenAPIMetadata.Title := ''User Address''\<rparr>)\<rparr>"
  have tag: "tag_openapi ?f = Some (ex_openapi\<lparr>OpenAPIMetadata.Title := ''User Address''\<rparr>)"
    by (simp add: ex_field_def)
  have ttl: "OpenAPIMetadata.Title (ex_openapi\<lparr>OpenAPIMetadata.Title := ''User Address''\<rparr>)
               = ''User Address''"
    by simp
  from inst[THEN conjunct2, THEN conjunct2, THEN conjunct1, rule_format, OF tag]
  have m: "Ref (scalars (applyOpenAPIMetadata (refSchema ''#/components/schemas/Address'') ?f))
         = ''#/components/schemas/Address''
     \<and> Title (scalars (applyOpenAPIMetadata (refSchema ''#/components/schemas/Address'') ?f))
         = ''User Address''"
    unfolding ttl by (elim conjE) (intro conjI)
  from all have s: "s = Some (Schema (zeroScalars\<lparr>Ref := ''#/components/schemas/Address''\<rparr>)
                       None [] None)"
    by simp
  from call ref s m show ?thesis
    by (intro exI[of _ s] exI[of _ r'] conjI) simp_all
qed

end
